theory Spec2Isabelle
  imports Complex_Main "HOL-Library.Word"
begin

section \<open>Crop geometry\<close>

text \<open>
  The repository holds three snapshots of the editor component: v2.1.0 and v1.2.0 (both in
  \<^verbatim>\<open>src/unnamed/part_000\<close>) and v1.3.0 (\<^verbatim>\<open>src/unnamed/part_001\<close>).
  The crop rectangle is the object \<^verbatim>\<open>{x, y, w, h}\<close> of percentages. JavaScript numbers
  are modelled as exact reals: the clamps below are compared and added without rounding, and
  a delta is a finite number.  The record fields carry the prefix \<open>rect_\<close> because the
  one-letter names of the source are needed as variables.
\<close>

record CropRect =
  rect_x :: real
  rect_y :: real
  rect_w :: real
  rect_h :: real

text \<open>The full-frame rectangle \<^verbatim>\<open>{ x: 0, y: 0, w: 100, h: 100 }\<close> set on entering crop mode.\<close>

definition fullFrame :: CropRect where
  "fullFrame = \<lparr>rect_x = 0, rect_y = 0, rect_w = 100, rect_h = 100\<rparr>"

text \<open>The six inequalities of the data model, for a given minimal size.\<close>

definition validRect :: "real \<Rightarrow> CropRect \<Rightarrow> bool" where
  "validRect m c \<longleftrightarrow>
     0 \<le> rect_x c \<and> 0 \<le> rect_y c \<and> rect_x c + rect_w c \<le> 100 \<and>
     rect_y c + rect_h c \<le> 100 \<and> m \<le> rect_w c \<and> m \<le> rect_h c"

subsection \<open>v2.1.0: \<^verbatim>\<open>CropOverlay.handlePointerMove\<close>\<close>


definition minSize :: real where
  "minSize = 1"




subsection \<open>v1.2.0: \<^verbatim>\<open>CropOverlay.handleMove\<close>\<close>

text \<open>\<^verbatim>\<open>type Mode = 'move' | 'tl' | 'tr' | 'bl' | 'br' | 't' | 'b' | 'l' | 'r' | null\<close>;
  the \<open>null\<close> case is the \<open>None\<close> of \<open>Mode option\<close>.\<close>

datatype Mode =
  Mode_move | Mode_tl | Mode_tr | Mode_bl | Mode_br | Mode_t | Mode_b | Mode_l | Mode_r

definition minSize_v12 :: real where
  "minSize_v12 = 5"

text \<open>The chain of \<^verbatim>\<open>if (interactionMode === ...)\<close> of v1.2.0's \<^verbatim>\<open>handleMove\<close>, from the
  percentages \<open>dX\<close>, \<open>dY\<close> it computes; \<open>s\<close> is \<^verbatim>\<open>startRect\<close>. The source reads
  \<^verbatim>\<open>newRect.w\<close>, \<^verbatim>\<open>newRect.x\<close> where these still hold the values of
  \<^verbatim>\<open>startRect\<close>. The handler returns before this, leaving the rectangle as it is, when
  there is no mode, no start position or no container; it divides by the container's width
  and height without a check, and the deltas here are the finite numbers a container of
  non-zero size gives.\<close>

fun handleMove_v12 :: "Mode \<Rightarrow> CropRect \<Rightarrow> real \<Rightarrow> real \<Rightarrow> CropRect" where
  "handleMove_v12 Mode_move s dX dY =
     s\<lparr>rect_x := max 0 (min (100 - rect_w s) (rect_x s + dX)),
       rect_y := max 0 (min (100 - rect_h s) (rect_y s + dY))\<rparr>"
| "handleMove_v12 Mode_br s dX dY =
     s\<lparr>rect_w := max minSize_v12 (min (100 - rect_x s) (rect_w s + dX)),
       rect_h := max minSize_v12 (min (100 - rect_y s) (rect_h s + dY))\<rparr>"
| "handleMove_v12 Mode_bl s dX dY =
     (let maxDX = rect_w s - minSize_v12;
          effectiveDX = max (- rect_x s) (min maxDX dX)
      in s\<lparr>rect_x := rect_x s + effectiveDX, rect_w := rect_w s - effectiveDX,
            rect_h := max minSize_v12 (min (100 - rect_y s) (rect_h s + dY))\<rparr>)"
| "handleMove_v12 Mode_tr s dX dY =
     (let maxDY = rect_h s - minSize_v12;
          effectiveDY = max (- rect_y s) (min maxDY dY)
      in s\<lparr>rect_w := max minSize_v12 (min (100 - rect_x s) (rect_w s + dX)),
            rect_y := rect_y s + effectiveDY, rect_h := rect_h s - effectiveDY\<rparr>)"
| "handleMove_v12 Mode_tl s dX dY =
     (let maxDX = rect_w s - minSize_v12;
          effectiveDX = max (- rect_x s) (min maxDX dX);
          maxDY = rect_h s - minSize_v12;
          effectiveDY = max (- rect_y s) (min maxDY dY)
      in s\<lparr>rect_x := rect_x s + effectiveDX, rect_w := rect_w s - effectiveDX,
            rect_y := rect_y s + effectiveDY, rect_h := rect_h s - effectiveDY\<rparr>)"
| "handleMove_v12 Mode_r s dX dY =
     s\<lparr>rect_w := max minSize_v12 (min (100 - rect_x s) (rect_w s + dX))\<rparr>"
| "handleMove_v12 Mode_l s dX dY =
     (let maxDX = rect_w s - minSize_v12;
          effectiveDX = max (- rect_x s) (min maxDX dX)
      in s\<lparr>rect_x := rect_x s + effectiveDX, rect_w := rect_w s - effectiveDX\<rparr>)"
| "handleMove_v12 Mode_b s dX dY =
     s\<lparr>rect_h := max minSize_v12 (min (100 - rect_y s) (rect_h s + dY))\<rparr>"
| "handleMove_v12 Mode_t s dX dY =
     (let maxDY = rect_h s - minSize_v12;
          effectiveDY = max (- rect_y s) (min maxDY dY)
      in s\<lparr>rect_y := rect_y s + effectiveDY, rect_h := rect_h s - effectiveDY\<rparr>)"


subsection \<open>v1.3.0: \<^verbatim>\<open>CropOverlay.handleMoveWithMode\<close>\<close>

text \<open>v1.3.0 resizes from the absolute pointer position: \<open>mouseXPct\<close>, \<open>mouseYPct\<close> are
  the pointer's percentages in the container, clamped to \<open>[0, 100]\<close>, and \<open>c\<close> is the live
  \<^verbatim>\<open>cropRect\<close>. The \<open>move\<close> case of the switch is empty.\<close>

fun resizeAbsolute :: "Mode \<Rightarrow> CropRect \<Rightarrow> real \<Rightarrow> real \<Rightarrow> CropRect" where
  "resizeAbsolute Mode_move c mouseXPct mouseYPct = c"
| "resizeAbsolute Mode_l c mouseXPct mouseYPct =
     (let currentRight = rect_x c + rect_w c;
          newLeftL = min mouseXPct (currentRight - minSize)
      in c\<lparr>rect_x := newLeftL, rect_w := currentRight - newLeftL\<rparr>)"
| "resizeAbsolute Mode_r c mouseXPct mouseYPct =
     (let newRightR = max (rect_x c + minSize) mouseXPct
      in c\<lparr>rect_w := newRightR - rect_x c\<rparr>)"
| "resizeAbsolute Mode_t c mouseXPct mouseYPct =
     (let currentBottom = rect_y c + rect_h c;
          newTopT = min mouseYPct (currentBottom - minSize)
      in c\<lparr>rect_y := newTopT, rect_h := currentBottom - newTopT\<rparr>)"
| "resizeAbsolute Mode_b c mouseXPct mouseYPct =
     (let newBottomB = max (rect_y c + minSize) mouseYPct
      in c\<lparr>rect_h := newBottomB - rect_y c\<rparr>)"
| "resizeAbsolute Mode_tl c mouseXPct mouseYPct =
     (let currentRight = rect_x c + rect_w c;
          currentBottom = rect_y c + rect_h c;
          newLeftTL = min mouseXPct (currentRight - minSize);
          newTopTL = min mouseYPct (currentBottom - minSize)
      in c\<lparr>rect_x := newLeftTL, rect_w := currentRight - newLeftTL,
            rect_y := newTopTL, rect_h := currentBottom - newTopTL\<rparr>)"
| "resizeAbsolute Mode_tr c mouseXPct mouseYPct =
     (let currentBottom = rect_y c + rect_h c;
          newRightTR = max (rect_x c + minSize) mouseXPct;
          newTopTR = min mouseYPct (currentBottom - minSize)
      in c\<lparr>rect_w := newRightTR - rect_x c,
            rect_y := newTopTR, rect_h := currentBottom - newTopTR\<rparr>)"
| "resizeAbsolute Mode_bl c mouseXPct mouseYPct =
     (let currentRight = rect_x c + rect_w c;
          newLeftBL = min mouseXPct (currentRight - minSize);
          newBottomBL = max (rect_y c + minSize) mouseYPct
      in c\<lparr>rect_x := newLeftBL, rect_w := currentRight - newLeftBL,
            rect_h := newBottomBL - rect_y c\<rparr>)"
| "resizeAbsolute Mode_br c mouseXPct mouseYPct =
     (let newRightBR = max (rect_x c + minSize) mouseXPct;
          newBottomBR = max (rect_y c + minSize) mouseYPct
      in c\<lparr>rect_w := newRightBR - rect_x c, rect_h := newBottomBR - rect_y c\<rparr>)"

text \<open>
  v1.3.0's \<^verbatim>\<open>handleMove\<close>. \<open>container\<close> is \<^verbatim>\<open>(left, top, width, height)\<close> of the
  container's bounding rectangle, which this snapshot divides by without a check; the model
  takes a container of non-zero size. For the mode \<open>move\<close> with a start position the
  handler does not call \<^verbatim>\<open>setCropRect\<close>.
\<close>

definition handleMove_v13 ::
  "Mode option \<Rightarrow> (real \<times> real) option \<Rightarrow> (real \<times> real \<times> real \<times> real) option \<Rightarrow>
   real \<times> real \<Rightarrow> CropRect \<Rightarrow> CropRect" where
  "handleMove_v13 interactionMode startPos container client cropRect =
     (case interactionMode of
        None \<Rightarrow> cropRect
      | Some m \<Rightarrow>
         (case container of
            None \<Rightarrow> cropRect
          | Some (cLeft, cTop, cWidth, cHeight) \<Rightarrow>
              let mouseXPct = max 0 (min 100 (((fst client - cLeft) / cWidth) * 100));
                  mouseYPct = max 0 (min 100 (((snd client - cTop) / cHeight) * 100));
                  newRect = resizeAbsolute m cropRect mouseXPct mouseYPct
              in if m = Mode_move \<and> startPos \<noteq> None then cropRect else newRect))"

text \<open>\<^verbatim>\<open>handleMoveWithMode\<close>, the handler bound to the pointer events of v1.3.0: the
  \<open>move\<close> mode is computed here from the anchor \<^verbatim>\<open>startRectRef.current\<close>.\<close>

definition handleMoveWithMode ::
  "Mode option \<Rightarrow> (real \<times> real) option \<Rightarrow> CropRect \<Rightarrow> (real \<times> real \<times> real \<times> real) option \<Rightarrow>
   real \<times> real \<Rightarrow> CropRect \<Rightarrow> CropRect" where
  "handleMoveWithMode interactionMode startPos startRect container client cropRect =
     (case interactionMode of
        None \<Rightarrow> cropRect
      | Some m \<Rightarrow>
         (case (m, startPos, container) of
            (Mode_move, Some (startX, startY), Some (cLeft, cTop, cWidth, cHeight)) \<Rightarrow>
              let dX = ((fst client - startX) / cWidth) * 100;
                  dY = ((snd client - startY) / cHeight) * 100
              in startRect\<lparr>rect_x := max 0 (min (100 - rect_w startRect) (rect_x startRect + dX)),
                           rect_y := max 0 (min (100 - rect_h startRect) (rect_y startRect + dY))\<rparr>
          | _ \<Rightarrow> handleMove_v13 interactionMode startPos container client cropRect))"

text \<open>The clamp of the specification, \<open>clamp(v, lo, hi)\<close>: \<open>v\<close> brought into the interval
  from \<open>lo\<close> to \<open>hi\<close>.\<close>

definition clamp :: "real \<Rightarrow> real \<Rightarrow> real \<Rightarrow> real" where
  "clamp v lo hi = (if v < lo then lo else if hi < v then hi else v)"

section \<open>The bitmap surface\<close>

text \<open>
  A canvas bitmap: \<open>width\<close> and \<open>height\<close> are \<^verbatim>\<open>canvas.width\<close> and
  \<^verbatim>\<open>canvas.height\<close>, \<open>pixels cv i j\<close> is the pixel in column \<open>i\<close> of row \<open>j\<close>. A pixel is
  the four bytes R, G, B, A that \<^verbatim>\<open>ImageData.data\<close> (a \<^verbatim>\<open>Uint8ClampedArray\<close>) holds for
  it. An image (\<^verbatim>\<open>HTMLImageElement\<close>) is a surface too. Outside of the bitmap a read gives
  transparent black, as \<^verbatim>\<open>getImageData\<close> does.
\<close>

type_synonym byte = "8 word"

datatype pixel = RGBA (red: byte) (green: byte) (blue: byte) (alpha: byte)

record surface =
  width :: nat
  height :: nat
  pixels :: "int \<Rightarrow> int \<Rightarrow> pixel"

definition transparent :: pixel where
  "transparent = RGBA 0 0 0 0"

definition inCanvas :: "surface \<Rightarrow> int \<Rightarrow> int \<Rightarrow> bool" where
  "inCanvas cv i j \<longleftrightarrow> 0 \<le> i \<and> i < int (width cv) \<and> 0 \<le> j \<and> j < int (height cv)"

definition pixelAt :: "surface \<Rightarrow> int \<Rightarrow> int \<Rightarrow> pixel" where
  "pixelAt cv i j = (if inCanvas cv i j then pixels cv i j else transparent)"

text \<open>A canvas after its width or height is set: every pixel transparent black.\<close>

definition blank :: "nat \<Rightarrow> nat \<Rightarrow> surface" where
  "blank wd ht = \<lparr>width = wd, height = ht, pixels = (\<lambda>i j. transparent)\<rparr>"

subsection \<open>Drawing\<close>

text \<open>
  What the 2D context draws is decided per pixel by how much of the pixel's unit square the
  shape covers. A pixel wholly inside the shape receives the source colour, composited
  source-over (the default \<^verbatim>\<open>globalCompositeOperation\<close>, which the program never
  changes); a pixel wholly outside keeps its value. What a browser writes into a pixel the
  shape's outline crosses (anti-aliasing), the rounding of a blend with a partially
  transparent source, the rasterisation of a stroked line and the filtering of an image drawn
  at a fractional offset are not fixed by the program: they are the four fields of the
  parameter \<open>raster\<close>, and every theorem holds for all of them.
\<close>

datatype shape = Rect real real real real | Circle real real real

datatype cover = Inside | Outside | Edge

text \<open>\<open>Rect x y w h\<close> is the rectangle of \<^verbatim>\<open>fillRect(x, y, w, h)\<close>; \<open>Circle cx cy r\<close> is the
  disc of \<^verbatim>\<open>arc(cx, cy, r, 0, Math.PI * 2)\<close>. Pixel \<open>(i, j)\<close> is the square from \<open>(i, j)\<close>
  to \<open>(i + 1, j + 1)\<close>: it is inside the disc when its farthest corner is, outside when
  its nearest point is not nearer than \<open>r\<close>.\<close>

fun coverage :: "shape \<Rightarrow> int \<Rightarrow> int \<Rightarrow> cover" where
  "coverage (Rect x y w h) i j =
     (if x \<le> real_of_int i \<and> real_of_int i + 1 \<le> x + w \<and>
         y \<le> real_of_int j \<and> real_of_int j + 1 \<le> y + h then Inside
      else if real_of_int i + 1 \<le> x \<or> x + w \<le> real_of_int i \<or>
              real_of_int j + 1 \<le> y \<or> y + h \<le> real_of_int j then Outside
      else Edge)"
| "coverage (Circle cx cy r) i j =
     (let farX = max \<bar>real_of_int i - cx\<bar> \<bar>real_of_int i + 1 - cx\<bar>;
          farY = max \<bar>real_of_int j - cy\<bar> \<bar>real_of_int j + 1 - cy\<bar>;
          nearX = max 0 (max (real_of_int i - cx) (cx - (real_of_int i + 1)));
          nearY = max 0 (max (real_of_int j - cy) (cy - (real_of_int j + 1)))
      in if farX * farX + farY * farY \<le> r * r then Inside
         else if r * r \<le> nearX * nearX + nearY * nearY then Outside
         else Edge)"

record raster =
  blend :: "pixel \<Rightarrow> pixel \<Rightarrow> pixel"
  antialias :: "shape \<Rightarrow> int \<Rightarrow> int \<Rightarrow> pixel \<Rightarrow> pixel \<Rightarrow> pixel"
  strokeLine :: "surface \<Rightarrow> real \<times> real \<Rightarrow> real \<times> real \<Rightarrow> string \<Rightarrow> int \<Rightarrow> surface"
  resample :: "surface \<Rightarrow> real \<Rightarrow> real \<Rightarrow> pixel"

text \<open>Source-over compositing of \<open>src\<close> onto the backdrop \<open>dst\<close>: onto a fully transparent
  backdrop and for an opaque source the result is the source, a fully transparent source
  leaves the backdrop.\<close>

definition over :: "raster \<Rightarrow> pixel \<Rightarrow> pixel \<Rightarrow> pixel" where
  "over R src dst =
     (if alpha dst = 0 then src
      else if alpha src = 255 then src
      else if alpha src = 0 then dst
      else blend R src dst)"

text \<open>Drawing the colours \<open>src\<close> through the shape \<open>sh\<close> onto \<open>cv\<close>: a fill with one colour
  when \<open>src\<close> is constant, \<^verbatim>\<open>drawImage(img, 0, 0)\<close> under a clip when \<open>src\<close> reads an
  image.\<close>

definition paint :: "raster \<Rightarrow> shape \<Rightarrow> (int \<Rightarrow> int \<Rightarrow> pixel) \<Rightarrow> surface \<Rightarrow> surface" where
  "paint R sh src cv =
     cv\<lparr>pixels := (\<lambda>i j.
          case coverage sh i j of
            Inside \<Rightarrow> over R (src i j) (pixels cv i j)
          | Outside \<Rightarrow> pixels cv i j
          | Edge \<Rightarrow> antialias R sh i j (src i j) (pixels cv i j))\<rparr>"

subsection \<open>\<^verbatim>\<open>getImageData\<close>\<close>

text \<open>
  The four arguments of \<^verbatim>\<open>getImageData\<close> are of the IDL type \<^verbatim>\<open>long\<close>: a number
  that is not an integer is truncated towards zero. A width or height of zero after that
  throws \<^verbatim>\<open>IndexSizeError\<close>. The program's coordinates are far below \<open>2^31\<close>, so the
  range of \<^verbatim>\<open>long\<close> is not modelled. \<^verbatim>\<open>arc\<close> throws the same error for a negative
  radius.
\<close>

datatype fault = IndexSizeError

definition toLong :: "real \<Rightarrow> int" where
  "toLong v = (if v < 0 then \<lceil>v\<rceil> else \<lfloor>v\<rfloor>)"

text \<open>The pixels of the rectangle of \<open>wd\<close> columns and \<open>ht\<close> rows at \<open>(x0, y0)\<close>, row by row,
  and their bytes in the order of \<^verbatim>\<open>ImageData.data\<close>.\<close>

definition samplePixels :: "surface \<Rightarrow> int \<Rightarrow> int \<Rightarrow> nat \<Rightarrow> nat \<Rightarrow> pixel list" where
  "samplePixels cv x0 y0 wd ht =
     concat (map (\<lambda>row. map (\<lambda>col. pixelAt cv (x0 + int col) (y0 + int row)) [0..<wd]) [0..<ht])"

definition imageBytes :: "pixel list \<Rightarrow> byte list" where
  "imageBytes ps = concat (map (\<lambda>p. [red p, green p, blue p, alpha p]) ps)"

definition getImageData :: "surface \<Rightarrow> real \<Rightarrow> real \<Rightarrow> real \<Rightarrow> real \<Rightarrow> fault + byte list" where
  "getImageData cv sx sy sw sh =
     (let ix = toLong sx; iy = toLong sy; iw = toLong sw; ih = toLong sh
      in if iw = 0 \<or> ih = 0 then Inl IndexSizeError
         else Inr (imageBytes (samplePixels cv (min ix (ix + iw)) (min iy (iy + ih))
                                 (nat \<bar>iw\<bar>) (nat \<bar>ih\<bar>))))"

section \<open>The obfuscation filter: \<^verbatim>\<open>applyMosaicEffect\<close>\<close>

text \<open>The function is the same in v2.1.0 and v1.3.0.\<close>

datatype MosaicType = Pixel | Blur

text \<open>
  The loop \<^verbatim>\<open>for (let i = 0; i < data.length; i += 16)\<close> with its four accumulators.
  \<open>data ! (i + 1)\<close> and \<open>data ! (i + 2)\<close> are never read past the end of the data of an
  \<^verbatim>\<open>ImageData\<close>, whose length is a multiple of four (\<open>imageBytes_length\<close> below).
\<close>

function averageLoop :: "byte list \<Rightarrow> nat \<Rightarrow> nat \<times> nat \<times> nat \<times> nat \<Rightarrow> nat \<times> nat \<times> nat \<times> nat" where
  "averageLoop data i (r, g, b, count) =
     (if i < length data
      then averageLoop data (i + 16)
             (r + unat (data ! i), g + unat (data ! (i + 1)), b + unat (data ! (i + 2)), count + 1)
      else (r, g, b, count))"
  by pat_completeness auto
termination
  by (relation "measure (\<lambda>(data, i, acc). length data - i)") auto

text \<open>The loop from \<open>r = g = b = count = 0\<close>, then the division guarded by
  \<^verbatim>\<open>if (count > 0)\<close>.\<close>

definition averageColor :: "byte list \<Rightarrow> nat \<times> nat \<times> nat" where
  "averageColor data =
     (case averageLoop data 0 (0, 0, 0, 0) of
        (r, g, b, count) \<Rightarrow>
          if count > 0 then (r div count, g div count, b div count) else (r, g, b))"

text \<open>The colour \<^verbatim>\<open>rgb(r,g,b)\<close> as a pixel: opaque, a channel above 255 is clamped.\<close>

definition rgb :: "nat \<times> nat \<times> nat \<Rightarrow> pixel" where
  "rgb c = (case c of (r, g, b) \<Rightarrow>
     RGBA (of_nat (min r 255)) (of_nat (min g 255)) (of_nat (min b 255)) 255)"

text \<open>\<open>startX\<close> and \<open>startY\<close> are computed by the same two statements: the origin for the
  mosaic type, then \<^verbatim>\<open>if (start < 0) start = 0\<close>.\<close>

definition sampleStart :: "MosaicType \<Rightarrow> real \<Rightarrow> real \<Rightarrow> real" where
  "sampleStart type x effectSize =
     (let start = (case type of
                     Pixel \<Rightarrow> real_of_int \<lfloor>x / effectSize\<rfloor> * effectSize
                   | Blur \<Rightarrow> x - effectSize / 2)
      in if start < 0 then 0 else start)"

definition applyMosaicEffect ::
  "raster \<Rightarrow> surface \<Rightarrow> real \<Rightarrow> real \<Rightarrow> int \<Rightarrow> MosaicType \<Rightarrow> fault + surface" where
  "applyMosaicEffect R ctx x y sz type =
     (let multiplier = 4;
          effectSize = real_of_int (sz * multiplier);
          startX = sampleStart type x effectSize;
          startY = sampleStart type y effectSize;
          sampleW = min effectSize (real (width ctx) - startX);
          sampleH = min effectSize (real (height ctx) - startY)
      in if sampleW \<le> 0 \<or> sampleH \<le> 0 then Inr ctx
         else
           (case getImageData ctx startX startY sampleW sampleH of
              Inl e \<Rightarrow> Inl e
            | Inr data \<Rightarrow>
                let fillStyle = rgb (averageColor data)
                in (case type of
                      Pixel \<Rightarrow>
                        Inr (paint R (Rect startX startY effectSize effectSize) (\<lambda>i j. fillStyle) ctx)
                    | Blur \<Rightarrow>
                        Inr (paint R (Circle x y (effectSize / 2)) (\<lambda>i j. fillStyle) ctx))))"

section \<open>The editor: \<^verbatim>\<open>draw\<close> and \<^verbatim>\<open>applyCrop\<close> (v2.1.0)\<close>

datatype Tool = Tool_none | Tool_brush | Tool_mosaic | Tool_eraser | Tool_crop

text \<open>
  The state of the \<^verbatim>\<open>App\<close> component that the two functions read and write.
  \<open>canvas\<close> is the bitmap of \<^verbatim>\<open>canvasRef.current\<close>, \<open>None\<close> while no image is shown
  (the ref is null); \<open>originalImageObj\<close> is the loaded image, \<open>None\<close> for \<^verbatim>\<open>null\<close>.
\<close>

record editor =
  canvas :: "surface option"
  originalImageObj :: "surface option"
  activeTool :: Tool
  isSettingsOpen :: bool
  brushColor :: string
  brushSize :: int
  mosaicType :: MosaicType
  cropRect :: CropRect
  isDrawing :: bool
  lastPos :: "(real \<times> real) option"


text \<open>
  \<^verbatim>\<open>applyCrop\<close>. The assignment \<^verbatim>\<open>tempCanvas.width = cropW\<close> converts to
  \<^verbatim>\<open>unsigned long\<close>. \<^verbatim>\<open>drawImage(canvas, cropX, cropY, cropW, cropH, 0, 0, cropW, cropH)\<close>
  draws without scaling, so pixel \<open>(i, j)\<close> of the temporary canvas receives the source at
  \<open>(cropX + i, cropY + j)\<close>: a pixel of the source when both are integers, a filtered value
  otherwise. The data URL is decoded into the new image, and the effect on
  \<^verbatim>\<open>[imageSrc, originalImageObj]\<close> resizes the canvas to the image and draws it. A canvas
  without pixels gives the URL \<^verbatim>\<open>data:,\<close>, which never loads.
\<close>

definition toUnsignedLong :: "real \<Rightarrow> nat" where
  "toUnsignedLong v = nat (toLong v mod 2 ^ 32)"

definition sourceAt :: "raster \<Rightarrow> surface \<Rightarrow> real \<Rightarrow> real \<Rightarrow> pixel" where
  "sourceAt R cv u v =
     (if real_of_int \<lfloor>u\<rfloor> = u \<and> real_of_int \<lfloor>v\<rfloor> = v then pixelAt cv \<lfloor>u\<rfloor> \<lfloor>v\<rfloor>
      else resample R cv u v)"

definition drawImage :: "raster \<Rightarrow> surface \<Rightarrow> surface \<Rightarrow> surface" where
  "drawImage R img cv = cv\<lparr>pixels := (\<lambda>i j. over R (pixelAt img i j) (pixels cv i j))\<rparr>"

definition applyCrop :: "raster \<Rightarrow> editor \<Rightarrow> editor" where
  "applyCrop R st =
     (case (canvas st, originalImageObj st) of
        (Some cv, Some img) \<Rightarrow>
          let cropX = (rect_x (cropRect st) / 100) * real (width cv);
              cropY = (rect_y (cropRect st) / 100) * real (height cv);
              cropW = (rect_w (cropRect st) / 100) * real (width cv);
              cropH = (rect_h (cropRect st) / 100) * real (height cv);
              tempCanvas = blank (toUnsignedLong cropW) (toUnsignedLong cropH);
              newImg = tempCanvas\<lparr>pixels := (\<lambda>i j.
                          over R (sourceAt R cv (cropX + real_of_int i) (cropY + real_of_int j))
                                 (pixels tempCanvas i j))\<rparr>
          in if width newImg = 0 \<or> height newImg = 0 then st
             else st\<lparr>originalImageObj := Some newImg,
                     canvas := Some (drawImage R newImg (blank (width newImg) (height newImg))),
                     activeTool := Tool_none,
                     isSettingsOpen := False\<rparr>
      | _ \<Rightarrow> st)"


section \<open>Example data\<close>

text \<open>A rasteriser that leaves outline pixels alone and neither blends nor filters, and a few
  surfaces and editor states, for evaluating the functions on concrete inputs.\<close>

definition plainRaster :: raster where
  "plainRaster =
     \<lparr>blend = (\<lambda>src dst. src),
      antialias = (\<lambda>sh i j src dst. dst),
      strokeLine = (\<lambda>cv a b colour n. cv),
      resample = (\<lambda>cv u v. pixelAt cv \<lfloor>u\<rfloor> \<lfloor>v\<rfloor>)\<rparr>"


definition gradient :: "nat \<Rightarrow> nat \<Rightarrow> surface" where
  "gradient wd ht =
     \<lparr>width = wd, height = ht, pixels = (\<lambda>i j. RGBA (of_int (10 * i)) (of_int j) 7 255)\<rparr>"


definition cropping :: "surface \<Rightarrow> editor" where
  "cropping cv =
     \<lparr>canvas = Some cv, originalImageObj = Some cv, activeTool = Tool_crop, isSettingsOpen = True,
      brushColor = ''#ff0000'', brushSize = 20, mosaicType = Pixel, cropRect = fullFrame,
      isDrawing = False, lastPos = None\<rparr>"


section \<open>Properties of the crop geometry\<close>










text \<open>
  Claim C8. In the mode \<open>move\<close>, anchored at a rectangle that satisfies the inequalities of
  the data model, a pointer move with the delta \<open>(dX, dY)\<close> sets
  \<open>x' = clamp(anchorRect.x + dX, 0, 100 - anchorRect.w)\<close> and
  \<open>y' = clamp(anchorRect.y + dY, 0, 100 - anchorRect.h)\<close> and leaves \<open>w\<close> and \<open>h\<close> as they
  are in the anchor: in v1.2.0's \<^verbatim>\<open>handleMove\<close>, and in v1.3.0's \<^verbatim>\<open>handleMoveWithMode\<close>
  with the delta it computes from the pointer and a container of non-zero size.
\<close>

theorem move_clamp:
  "validRect m anchorRect \<Longrightarrow>
     handleMove_v12 Mode_move anchorRect dX dY =
       anchorRect\<lparr>rect_x := clamp (rect_x anchorRect + dX) 0 (100 - rect_w anchorRect),
                  rect_y := clamp (rect_y anchorRect + dY) 0 (100 - rect_h anchorRect)\<rparr> \<and>
     rect_w (handleMove_v12 Mode_move anchorRect dX dY) = rect_w anchorRect \<and>
     rect_h (handleMove_v12 Mode_move anchorRect dX dY) = rect_h anchorRect \<and>
     (cWidth \<noteq> 0 \<and> cHeight \<noteq> 0 \<and>
      dX = ((clientX - startX) / cWidth) * 100 \<and> dY = ((clientY - startY) / cHeight) * 100 \<longrightarrow>
        handleMoveWithMode (Some Mode_move) (Some (startX, startY)) anchorRect
            (Some (cLeft, cTop, cWidth, cHeight)) (clientX, clientY) c =
          anchorRect\<lparr>rect_x := clamp (rect_x anchorRect + dX) 0 (100 - rect_w anchorRect),
                     rect_y := clamp (rect_y anchorRect + dY) 0 (100 - rect_h anchorRect)\<rparr>)"
  by (auto simp: validRect_def clamp_def handleMoveWithMode_def Let_def)

theorem move_clamp_witness:
  "validRect 1 \<lparr>rect_x = 10, rect_y = 20, rect_w = 50, rect_h = 40\<rparr> \<and>
   handleMove_v12 Mode_move \<lparr>rect_x = 10, rect_y = 20, rect_w = 50, rect_h = 40\<rparr> 60 (-5) =
     \<lparr>rect_x = 50, rect_y = 15, rect_w = 50, rect_h = 40\<rparr> \<and>
   handleMoveWithMode (Some Mode_move) (Some (100, 100))
       \<lparr>rect_x = 10, rect_y = 20, rect_w = 50, rect_h = 40\<rparr> (Some (0, 0, 200, 100)) (220, 95)
       fullFrame =
     \<lparr>rect_x = 50, rect_y = 15, rect_w = 50, rect_h = 40\<rparr>"
proof -
  have v: "validRect 1 \<lparr>rect_x = 10, rect_y = 20, rect_w = 50, rect_h = 40\<rparr>"
    by (simp add: validRect_def)
  have d: "(200::real) \<noteq> 0 \<and> (100::real) \<noteq> 0 \<and> (60::real) = ((220 - 100) / 200) * 100 \<and>
           (-5::real) = ((95 - 100) / 100) * 100"
    by simp
  show ?thesis
    using v d move_clamp [OF v, of 60 "-5" 200 100 220 100 95 100 0 0 fullFrame]
    by (simp add: clamp_def)
qed





section \<open>Properties of the averaging loop\<close>

declare averageLoop.simps [simp del]

lemma steps_Suc:
  fixes i n :: nat
  assumes "i < n"
  shows "(n + 15 - i) div 16 = Suc ((n + 15 - (i + 16)) div 16)"
proof -
  have "n + 15 - i = (n + 15 - (i + 16)) + 16" using assms by linarith
  then show ?thesis by simp
qed

lemma steps_0:
  fixes i n :: nat
  assumes "\<not> i < n"
  shows "(n + 15 - i) div 16 = 0"
proof -
  have "n + 15 - i < 16" using assms by linarith
  then show ?thesis by simp
qed

lemma imageBytes_length: "length (imageBytes ps) = 4 * length ps"
  by (induction ps) (simp_all add: imageBytes_def)

lemma imageBytes_nth:
  "m < length ps \<Longrightarrow>
     imageBytes ps ! (4 * m) = red (ps ! m) \<and> imageBytes ps ! (4 * m + 1) = green (ps ! m) \<and>
     imageBytes ps ! (4 * m + 2) = blue (ps ! m) \<and> imageBytes ps ! (4 * m + 3) = alpha (ps ! m)"
proof (induction ps arbitrary: m)
  case Nil
  then show ?case by simp
next
  case (Cons p ps)
  show ?case
  proof (cases m)
    case 0
    then show ?thesis by (simp add: imageBytes_def)
  next
    case (Suc m')
    with Cons.prems have "m' < length ps" by simp
    from Cons.IH [OF this] have ih: "imageBytes ps ! (4 * m') = red (ps ! m')"
      "imageBytes ps ! (4 * m' + 1) = green (ps ! m')"
      "imageBytes ps ! (4 * m' + 2) = blue (ps ! m')"
      "imageBytes ps ! (4 * m' + 3) = alpha (ps ! m')" by simp_all
    have c: "imageBytes (p # ps) = red p # green p # blue p # alpha p # imageBytes ps"
      by (simp add: imageBytes_def)
    have e: "4 * m = 4 * m' + 4" using Suc by simp
    have n: "(a # b # c # d # xs) ! (k + 4) = xs ! k"
      "(a # b # c # d # xs) ! (k + 4 + 1) = xs ! (k + 1)"
      "(a # b # c # d # xs) ! (k + 4 + 2) = xs ! (k + 2)"
      "(a # b # c # d # xs) ! (k + 4 + 3) = xs ! (k + 3)"  for a b c d :: byte and xs k
      by (simp_all add: numeral_eq_Suc)
    have h: "(p # ps) ! m = ps ! m'" using Suc by simp
    show ?thesis unfolding c e n h using ih by blast
  qed
qed

lemma samplePixels_length: "length (samplePixels cv x0 y0 wd ht) = wd * ht"
  unfolding samplePixels_def by (induction ht) simp_all

lemma sum_stride_shift:
  fixes F :: "nat \<Rightarrow> nat"
  shows "(\<Sum>k < Suc n. F (i + 16 * k)) = F i + (\<Sum>k < n. F (i + 16 + 16 * k))"
proof -
  have "(\<Sum>k < Suc n. F (i + 16 * k)) = F (i + 16 * 0) + (\<Sum>k < n. F (i + 16 * Suc k))"
    by (rule sum.lessThan_Suc_shift)
  moreover have "\<And>k. i + 16 * Suc k = i + 16 + 16 * k" by simp
  ultimately show ?thesis by (simp only: mult_0_right add_0_right)
qed

lemma averageLoop_sums:
  "averageLoop data i (r, g, b, c) =
     (r + (\<Sum>k < (length data + 15 - i) div 16. unat (data ! (i + 16 * k))),
      g + (\<Sum>k < (length data + 15 - i) div 16. unat (data ! (i + 16 * k + 1))),
      b + (\<Sum>k < (length data + 15 - i) div 16. unat (data ! (i + 16 * k + 2))),
      c + (length data + 15 - i) div 16)"
proof (induction data i "(r, g, b, c)" arbitrary: r g b c rule: averageLoop.induct)
  case (1 data i r g b count)
  show ?case
  proof (cases "i < length data")
    case True
    let ?n = "(length data + 15 - (i + 16)) div 16"
    have n: "(length data + 15 - i) div 16 = Suc ?n" by (rule steps_Suc [OF True])
    have unfold: "averageLoop data i (r, g, b, count) =
        averageLoop data (i + 16)
          (r + unat (data ! i), g + unat (data ! (i + 1)), b + unat (data ! (i + 2)), count + 1)"
      using True by (subst averageLoop.simps) simp
    have s0: "(\<Sum>k < Suc ?n. unat (data ! (i + 16 * k))) =
                unat (data ! i) + (\<Sum>k < ?n. unat (data ! (i + 16 + 16 * k)))"
      by (rule sum_stride_shift [where F = "\<lambda>j. unat (data ! j)"])
    have s1: "(\<Sum>k < Suc ?n. unat (data ! (i + 16 * k + 1))) =
                unat (data ! (i + 1)) + (\<Sum>k < ?n. unat (data ! (i + 16 + 16 * k + 1)))"
      by (rule sum_stride_shift [where F = "\<lambda>j. unat (data ! (j + 1))"])
    have s2: "(\<Sum>k < Suc ?n. unat (data ! (i + 16 * k + 2))) =
                unat (data ! (i + 2)) + (\<Sum>k < ?n. unat (data ! (i + 16 + 16 * k + 2)))"
      by (rule sum_stride_shift [where F = "\<lambda>j. unat (data ! (j + 2))"])
    show ?thesis
      unfolding unfold n s0 s1 s2 "1" [OF True] by (simp del: sum.lessThan_Suc)
  next
    case False
    then show ?thesis
      by (subst averageLoop.simps) (simp add: steps_0)
  qed
qed

lemma mean_le_255:
  fixes f :: "nat \<Rightarrow> nat"
  assumes "\<And>k. k < n \<Longrightarrow> f k \<le> 255"
  shows "(\<Sum>k < n. f k) div n \<le> 255"
proof (cases "n = 0")
  case True
  then show ?thesis by simp
next
  case False
  have "(\<Sum>k < n. f k) \<le> (\<Sum>k < n. 255)"
    by (rule sum_mono) (simp add: assms)
  then have "(\<Sum>k < n. f k) \<le> 255 * n" by simp
  then have "(\<Sum>k < n. f k) div n \<le> (255 * n) div n" by (rule div_le_mono)
  with False show ?thesis by simp
qed

lemma unat_byte_le: "unat (b :: byte) \<le> 255"
proof -
  have "unat b < 2 ^ LENGTH(8)" by (rule unsigned_less)
  then show ?thesis by simp
qed

lemma quarter_index:
  fixes k n len :: nat
  assumes "k < (len + 3) div 4"
  shows "4 * k < len"
proof -
  have "Suc k \<le> (len + 3) div 4" using assms by simp
  then have "Suc k * 4 \<le> len + 3" by (simp add: less_eq_div_iff_mult_less_eq)
  then show ?thesis by simp
qed

lemma steps_imageBytes: "(4 * len + 15 - 0) div 16 = (len + 3) div (4::nat)"
proof -
  have "4 * len + 15 = 4 * (len + 3) + 3" by simp
  then have "(4 * len + 15) div 16 = ((4 * (len + 3) + 3) div 4) div 4"
    by (simp add: div_mult2_eq)
  then show ?thesis by simp
qed

lemma averageColor_imageBytes:
  "averageColor (imageBytes ps) =
     (let n = (length ps + 3) div 4
      in if n > 0
         then ((\<Sum>k < n. unat (red (ps ! (4 * k)))) div n,
               (\<Sum>k < n. unat (green (ps ! (4 * k)))) div n,
               (\<Sum>k < n. unat (blue (ps ! (4 * k)))) div n)
         else (0, 0, 0))"
proof -
  let ?n = "(length ps + 3) div 4"
  let ?d = "imageBytes ps"
  have n: "(length ?d + 15 - 0) div 16 = ?n"
    unfolding imageBytes_length by (rule steps_imageBytes)
  have idx: "\<forall>k < ?n. ?d ! (0 + 16 * k) = red (ps ! (4 * k)) \<and>
             ?d ! (0 + 16 * k + 1) = green (ps ! (4 * k)) \<and>
             ?d ! (0 + 16 * k + 2) = blue (ps ! (4 * k))"
  proof (intro allI impI)
    fix k assume "k < ?n"
    then have "4 * k < length ps" by (rule quarter_index)
    from imageBytes_nth [OF this]
    show "?d ! (0 + 16 * k) = red (ps ! (4 * k)) \<and>
          ?d ! (0 + 16 * k + 1) = green (ps ! (4 * k)) \<and>
          ?d ! (0 + 16 * k + 2) = blue (ps ! (4 * k))" by simp
  qed
  have r: "(\<Sum>k < ?n. unat (?d ! (0 + 16 * k))) = (\<Sum>k < ?n. unat (red (ps ! (4 * k))))"
    using idx by (intro sum.cong) simp_all
  have g: "(\<Sum>k < ?n. unat (?d ! (0 + 16 * k + 1))) = (\<Sum>k < ?n. unat (green (ps ! (4 * k))))"
    using idx by (intro sum.cong) simp_all
  have b: "(\<Sum>k < ?n. unat (?d ! (0 + 16 * k + 2))) = (\<Sum>k < ?n. unat (blue (ps ! (4 * k))))"
    using idx by (intro sum.cong) simp_all
  show ?thesis
    unfolding averageColor_def averageLoop_sums n r g b by (simp add: Let_def)
qed

lemma averageLoop_count:
  "ps \<noteq> [] \<Longrightarrow> snd (snd (snd (averageLoop (imageBytes ps) 0 (0, 0, 0, 0)))) > 0"
proof -
  assume "ps \<noteq> []"
  then have "0 < (length ps + 3) div 4" by (cases ps) (simp_all add: div_greater_zero_iff)
  then show ?thesis
    unfolding averageLoop_sums imageBytes_length steps_imageBytes by simp
qed

lemma rgb_averageColor:
  "rgb (averageColor (imageBytes ps)) =
     (let n = (length ps + 3) div 4
      in RGBA (of_nat ((\<Sum>k < n. unat (red (ps ! (4 * k)))) div n))
              (of_nat ((\<Sum>k < n. unat (green (ps ! (4 * k)))) div n))
              (of_nat ((\<Sum>k < n. unat (blue (ps ! (4 * k)))) div n)) 255)"
proof -
  let ?n = "(length ps + 3) div 4"
  have m: "min ((\<Sum>k < ?n. unat (f (ps ! (4 * k)))) div ?n) 255 = (\<Sum>k < ?n. unat (f (ps ! (4 * k)))) div ?n"
    for f :: "pixel \<Rightarrow> byte"
    by (rule min_absorb1, rule mean_le_255, rule unat_byte_le)
  show ?thesis
    unfolding averageColor_imageBytes Let_def rgb_def
    by (cases "?n > 0") (simp_all add: m)
qed

lemma averageColor_range:
  "averageColor (imageBytes ps) = (r, g, b) \<Longrightarrow> r \<le> 255 \<and> g \<le> 255 \<and> b \<le> 255"
  unfolding averageColor_imageBytes Let_def
  by (auto split: if_splits intro!: mean_le_255 unat_byte_le)

section \<open>Properties of the obfuscation filter\<close>

lemma toLong_of_int: "toLong (real_of_int k) = k"
  by (simp add: toLong_def)

lemma coverage_rect_aligned:
  "coverage (Rect (real_of_int X) (real_of_int Y) (real_of_int E) (real_of_int E)) i j =
     (if X \<le> i \<and> i < X + E \<and> Y \<le> j \<and> j < Y + E then Inside else Outside)"
proof -
  have a: "real_of_int i + 1 \<le> real_of_int X + real_of_int E \<longleftrightarrow> i < X + E" for i X E
  proof -
    have "real_of_int i + 1 = real_of_int (i + 1)" "real_of_int X + real_of_int E = real_of_int (X + E)"
      by simp_all
    then show ?thesis by (simp only: of_int_le_iff) auto
  qed
  have b: "real_of_int i + 1 \<le> real_of_int X \<longleftrightarrow> i < X" for i X
  proof -
    have "real_of_int i + 1 = real_of_int (i + 1)" by simp
    then show ?thesis by (simp only: of_int_le_iff) auto
  qed
  have c: "real_of_int X + real_of_int E \<le> real_of_int i \<longleftrightarrow> X + E \<le> i" for i X E
  proof -
    have "real_of_int X + real_of_int E = real_of_int (X + E)" by simp
    then show ?thesis by (simp only: of_int_le_iff)
  qed
  show ?thesis
    unfolding coverage.simps a b c of_int_le_iff by auto
qed

lemma over_opaque: "alpha src = 255 \<Longrightarrow> over R src dst = src"
  by (simp add: over_def)

lemma rgb_alpha: "alpha (rgb c) = 255"
  by (cases c) (simp add: rgb_def)

lemma sampleStart_pixel:
  assumes "0 \<le> x" "0 < E"
  shows "sampleStart Pixel x (real_of_int E) = real_of_int (\<lfloor>x / real_of_int E\<rfloor> * E)"
    and "0 \<le> \<lfloor>x / real_of_int E\<rfloor> * E"
proof -
  have "0 \<le> x / real_of_int E" using assms by simp
  then have f: "0 \<le> \<lfloor>x / real_of_int E\<rfloor>" by simp
  then show nn: "0 \<le> \<lfloor>x / real_of_int E\<rfloor> * E" using assms by simp
  then have "0 \<le> real_of_int (\<lfloor>x / real_of_int E\<rfloor> * E)" by (simp only: of_int_0_le_iff)
  then show "sampleStart Pixel x (real_of_int E) = real_of_int (\<lfloor>x / real_of_int E\<rfloor> * E)"
    by (simp add: sampleStart_def Let_def)
qed

lemma getImageData_aligned:
  assumes "0 < W" "0 < H"
  shows "getImageData cv (real_of_int X) (real_of_int Y) (real_of_int W) (real_of_int H) =
           Inr (imageBytes (samplePixels cv X Y (nat W) (nat H)))"
  using assms by (simp add: getImageData_def toLong_of_int Let_def)

lemma sample_size_int:
  "min (real_of_int E) (real (n::nat) - real_of_int X) = real_of_int (min E (int n - X))"
  by (simp add: min_def)

lemma mosaic_pixel_result:
  assumes "0 \<le> x" "0 \<le> y" "0 < sz"
  shows "applyMosaicEffect R ctx x y sz Pixel =
     (let E = sz * 4;
          X = \<lfloor>x / real_of_int E\<rfloor> * E;
          Y = \<lfloor>y / real_of_int E\<rfloor> * E;
          W = min E (int (width ctx) - X);
          H = min E (int (height ctx) - Y)
      in if W \<le> 0 \<or> H \<le> 0 then Inr ctx
         else Inr (paint R (Rect (real_of_int X) (real_of_int Y) (real_of_int E) (real_of_int E))
                     (\<lambda>i j. rgb (averageColor (imageBytes (samplePixels ctx X Y (nat W) (nat H)))))
                     ctx))"
proof -
  let ?E = "sz * 4"
  let ?X = "\<lfloor>x / real_of_int ?E\<rfloor> * ?E"
  let ?Y = "\<lfloor>y / real_of_int ?E\<rfloor> * ?E"
  let ?W = "min ?E (int (width ctx) - ?X)"
  let ?H = "min ?E (int (height ctx) - ?Y)"
  have E: "0 < ?E" using assms by simp
  have sx: "sampleStart Pixel x (real_of_int ?E) = real_of_int ?X"
    by (rule sampleStart_pixel [OF assms(1) E])
  have sy: "sampleStart Pixel y (real_of_int ?E) = real_of_int ?Y"
    by (rule sampleStart_pixel [OF assms(2) E])
  have w: "min (real_of_int ?E) (real (width ctx) - real_of_int ?X) = real_of_int ?W"
    by (rule sample_size_int)
  have h: "min (real_of_int ?E) (real (height ctx) - real_of_int ?Y) = real_of_int ?H"
    by (rule sample_size_int)
  show ?thesis
  proof (cases "?W \<le> 0 \<or> ?H \<le> 0")
    case True
    then have "real_of_int ?W \<le> 0 \<or> real_of_int ?H \<le> 0" by (simp only: of_int_le_0_iff)
    then show ?thesis
      using True unfolding applyMosaicEffect_def Let_def sx sy w h by simp
  next
    case False
    then have pos: "0 < ?W" "0 < ?H" by linarith+
    have "\<not> (real_of_int ?W \<le> 0 \<or> real_of_int ?H \<le> 0)" using False by simp
    then show ?thesis
      using False unfolding applyMosaicEffect_def Let_def sx sy w h getImageData_aligned [OF pos]
      by simp
  qed
qed

lemma paint_rect_aligned:
  "pixels (paint R (Rect (real_of_int X) (real_of_int Y) (real_of_int E) (real_of_int E))
             (\<lambda>i j. rgb c) ctx) i j =
     (if X \<le> i \<and> i < X + E \<and> Y \<le> j \<and> j < Y + E then rgb c else pixels ctx i j)"
  by (simp add: paint_def coverage_rect_aligned over_opaque rgb_alpha del: coverage.simps)

lemma paint_size: "width (paint R sh src cv) = width cv" "height (paint R sh src cv) = height cv"
  by (simp_all add: paint_def)

lemma mosaic_pixel_general:
  assumes "0 \<le> x" "0 \<le> y" "0 < sz"
  shows
   "(let effectSize = sz * 4;
         startX = \<lfloor>x / real_of_int effectSize\<rfloor> * effectSize;
         startY = \<lfloor>y / real_of_int effectSize\<rfloor> * effectSize;
         sampleW = min effectSize (int (width ctx) - startX);
         sampleH = min effectSize (int (height ctx) - startY);
         ps = samplePixels ctx startX startY (nat sampleW) (nat sampleH);
         n = (length ps + 3) div 4;
         flat = RGBA (of_nat ((\<Sum>k < n. unat (red (ps ! (4 * k)))) div n))
                     (of_nat ((\<Sum>k < n. unat (green (ps ! (4 * k)))) div n))
                     (of_nat ((\<Sum>k < n. unat (blue (ps ! (4 * k)))) div n)) 255
     in 0 \<le> startX \<and> 0 \<le> startY \<and>
        (\<exists>ctx'. applyMosaicEffect R ctx x y sz Pixel = Inr ctx' \<and>
           width ctx' = width ctx \<and> height ctx' = height ctx \<and>
           (\<forall>i j. inCanvas ctx i j \<longrightarrow>
              pixels ctx' i j =
                (if startX \<le> i \<and> i < startX + effectSize \<and> startY \<le> j \<and> j < startY + effectSize
                 then flat else pixels ctx i j))))"
proof -
  let ?E = "sz * 4"
  let ?X = "\<lfloor>x / real_of_int ?E\<rfloor> * ?E"
  let ?Y = "\<lfloor>y / real_of_int ?E\<rfloor> * ?E"
  let ?W = "min ?E (int (width ctx) - ?X)"
  let ?H = "min ?E (int (height ctx) - ?Y)"
  let ?ps = "samplePixels ctx ?X ?Y (nat ?W) (nat ?H)"
  have E: "0 < ?E" using assms by simp
  have X: "0 \<le> ?X" by (rule sampleStart_pixel [OF assms(1) E])
  have Y: "0 \<le> ?Y" by (rule sampleStart_pixel [OF assms(2) E])
  note res = mosaic_pixel_result [OF assms, of R ctx, unfolded Let_def]
  have main: "\<exists>ctx'. applyMosaicEffect R ctx x y sz Pixel = Inr ctx' \<and>
           width ctx' = width ctx \<and> height ctx' = height ctx \<and>
           (\<forall>i j. inCanvas ctx i j \<longrightarrow>
              pixels ctx' i j =
                (if ?X \<le> i \<and> i < ?X + ?E \<and> ?Y \<le> j \<and> j < ?Y + ?E
                 then rgb (averageColor (imageBytes ?ps)) else pixels ctx i j))"
  proof (cases "?W \<le> 0 \<or> ?H \<le> 0")
    case True
    then have r: "applyMosaicEffect R ctx x y sz Pixel = Inr ctx"
      unfolding res by (simp only: if_True)
    have nin: "\<not> (?X \<le> i \<and> i < ?X + ?E \<and> ?Y \<le> j \<and> j < ?Y + ?E)" if "inCanvas ctx i j" for i j
      using that True E unfolding inCanvas_def by linarith
    show ?thesis
    proof (intro exI [of _ ctx] conjI allI impI)
      fix i j assume "inCanvas ctx i j"
      from nin [OF this]
      show "pixels ctx i j =
              (if ?X \<le> i \<and> i < ?X + ?E \<and> ?Y \<le> j \<and> j < ?Y + ?E
               then rgb (averageColor (imageBytes ?ps)) else pixels ctx i j)"
        by (simp only: if_False)
    qed (rule r, rule refl, rule refl)
  next
    case False
    let ?P = "paint R (Rect (real_of_int ?X) (real_of_int ?Y) (real_of_int ?E) (real_of_int ?E))
               (\<lambda>i j. rgb (averageColor (imageBytes ?ps))) ctx"
    from False have r: "applyMosaicEffect R ctx x y sz Pixel = Inr ?P"
      unfolding res by (simp only: if_False)
    show ?thesis
    proof (intro exI [of _ ?P] conjI allI impI)
      fix i j
      show "pixels ?P i j =
              (if ?X \<le> i \<and> i < ?X + ?E \<and> ?Y \<le> j \<and> j < ?Y + ?E
               then rgb (averageColor (imageBytes ?ps)) else pixels ctx i j)"
        by (rule paint_rect_aligned)
    qed (rule r, rule paint_size, rule paint_size)
  qed
  show ?thesis
    unfolding Let_def rgb_averageColor [of ?ps, unfolded Let_def, symmetric]
    using X Y main by (intro conjI)
qed

lemma getImageData_data:
  assumes "getImageData cv sx sy sw sh = Inr data"
  shows "\<exists>ps. ps \<noteq> [] \<and> data = imageBytes ps"
proof -
  let ?iw = "toLong sw" and ?ih = "toLong sh"
  let ?ps = "samplePixels cv (min (toLong sx) (toLong sx + ?iw)) (min (toLong sy) (toLong sy + ?ih))
               (nat \<bar>?iw\<bar>) (nat \<bar>?ih\<bar>)"
  from assms have nz: "?iw \<noteq> 0" "?ih \<noteq> 0" and d: "data = imageBytes ?ps"
    by (auto simp: getImageData_def Let_def split: if_splits)
  from nz have "0 < nat \<bar>?iw\<bar> * nat \<bar>?ih\<bar>" by simp
  then have "length ?ps \<noteq> 0" unfolding samplePixels_length by simp
  then have "?ps \<noteq> []" by (simp only: length_0_conv not_False_eq_True)
  with d show ?thesis by blast
qed

lemma mosaic_color_wellformed:
  assumes "getImageData cv sx sy sw sh = Inr data"
  shows "0 < snd (snd (snd (averageLoop data 0 (0, 0, 0, 0))))"
    and "averageColor data = (r, g, b) \<Longrightarrow> r \<le> 255 \<and> g \<le> 255 \<and> b \<le> 255"
proof -
  from getImageData_data [OF assms] obtain ps where ps: "ps \<noteq> []" "data = imageBytes ps" by blast
  show "0 < snd (snd (snd (averageLoop data 0 (0, 0, 0, 0))))"
    unfolding ps(2) by (rule averageLoop_count [OF ps(1)])
  show "averageColor data = (r, g, b) \<Longrightarrow> r \<le> 255 \<and> g \<le> 255 \<and> b \<le> 255"
    unfolding ps(2) by (rule averageColor_range)
qed

text \<open>
  Claim C2. In pixel mode, for a point with \<open>x \<ge> 0\<close>, \<open>y \<ge> 0\<close> and a positive brush size,
  with \<open>effectSize = brushSize \<times> 4\<close>, the call returns a surface of the same size in which
  every pixel of the square of side \<open>effectSize\<close> at
  \<open>(startX, startY) = (\<lfloor>x / effectSize\<rfloor> \<times> effectSize, \<lfloor>y / effectSize\<rfloor> \<times> effectSize)\<close>
  (both \<open>\<ge> 0\<close>, so the clamp changes nothing) has one flat opaque colour, and every other
  pixel is as before. Each channel of that colour is the floor of the mean of the channel
  over every fourth pixel, in row order, of the sample rectangle of
  \<open>min(effectSize, width - startX)\<close> by \<open>min(effectSize, height - startY)\<close> pixels at
  \<open>(startX, startY)\<close>. On a surface of 200 by 100 with brush size 20, the point \<open>(50, 30)\<close>
  fills the block of 80 by 80 at \<open>(0, 0)\<close> with the mean over the 1600 sampled pixels.
  (When the square lies beyond the right or the bottom edge the call returns early: no pixel
  of the surface is in the square then.)
\<close>

theorem mosaic_pixel_mode:
  "(0 \<le> x \<and> 0 \<le> y \<and> 0 < sz \<longrightarrow>
     (let effectSize = sz * 4;
          startX = \<lfloor>x / real_of_int effectSize\<rfloor> * effectSize;
          startY = \<lfloor>y / real_of_int effectSize\<rfloor> * effectSize;
          sampleW = min effectSize (int (width ctx) - startX);
          sampleH = min effectSize (int (height ctx) - startY);
          ps = samplePixels ctx startX startY (nat sampleW) (nat sampleH);
          n = (length ps + 3) div 4;
          flat = RGBA (of_nat ((\<Sum>k < n. unat (red (ps ! (4 * k)))) div n))
                      (of_nat ((\<Sum>k < n. unat (green (ps ! (4 * k)))) div n))
                      (of_nat ((\<Sum>k < n. unat (blue (ps ! (4 * k)))) div n)) 255
      in 0 \<le> startX \<and> 0 \<le> startY \<and>
         (\<exists>ctx'. applyMosaicEffect R ctx x y sz Pixel = Inr ctx' \<and>
            width ctx' = width ctx \<and> height ctx' = height ctx \<and>
            (\<forall>i j. inCanvas ctx i j \<longrightarrow>
               pixels ctx' i j =
                 (if startX \<le> i \<and> i < startX + effectSize \<and> startY \<le> j \<and> j < startY + effectSize
                  then flat else pixels ctx i j))))) \<and>
   (width ctx = 200 \<and> height ctx = 100 \<longrightarrow>
     (let ps = samplePixels ctx 0 0 80 80;
          flat = RGBA (of_nat ((\<Sum>k < 1600. unat (red (ps ! (4 * k)))) div 1600))
                      (of_nat ((\<Sum>k < 1600. unat (green (ps ! (4 * k)))) div 1600))
                      (of_nat ((\<Sum>k < 1600. unat (blue (ps ! (4 * k)))) div 1600)) 255
      in \<exists>ctx'. applyMosaicEffect R ctx 50 30 20 Pixel = Inr ctx' \<and>
            width ctx' = 200 \<and> height ctx' = 100 \<and>
            (\<forall>i j. inCanvas ctx i j \<longrightarrow>
               pixels ctx' i j =
                 (if 0 \<le> i \<and> i < 80 \<and> 0 \<le> j \<and> j < 80 then flat else pixels ctx i j))))"
proof (intro conjI impI)
  assume "0 \<le> x \<and> 0 \<le> y \<and> 0 < sz"
  then show "let effectSize = sz * 4;
          startX = \<lfloor>x / real_of_int effectSize\<rfloor> * effectSize;
          startY = \<lfloor>y / real_of_int effectSize\<rfloor> * effectSize;
          sampleW = min effectSize (int (width ctx) - startX);
          sampleH = min effectSize (int (height ctx) - startY);
          ps = samplePixels ctx startX startY (nat sampleW) (nat sampleH);
          n = (length ps + 3) div 4;
          flat = RGBA (of_nat ((\<Sum>k < n. unat (red (ps ! (4 * k)))) div n))
                      (of_nat ((\<Sum>k < n. unat (green (ps ! (4 * k)))) div n))
                      (of_nat ((\<Sum>k < n. unat (blue (ps ! (4 * k)))) div n)) 255
      in 0 \<le> startX \<and> 0 \<le> startY \<and>
         (\<exists>ctx'. applyMosaicEffect R ctx x y sz Pixel = Inr ctx' \<and>
            width ctx' = width ctx \<and> height ctx' = height ctx \<and>
            (\<forall>i j. inCanvas ctx i j \<longrightarrow>
               pixels ctx' i j =
                 (if startX \<le> i \<and> i < startX + effectSize \<and> startY \<le> j \<and> j < startY + effectSize
                  then flat else pixels ctx i j)))"
    using mosaic_pixel_general [of x y sz ctx R] by blast
next
  assume d: "width ctx = 200 \<and> height ctx = 100"
  have "(0::real) \<le> 50" "(0::real) \<le> 30" "(0::int) < 20" by simp_all
  from mosaic_pixel_general [OF this, of ctx R]
  show "let ps = samplePixels ctx 0 0 80 80;
          flat = RGBA (of_nat ((\<Sum>k < 1600. unat (red (ps ! (4 * k)))) div 1600))
                      (of_nat ((\<Sum>k < 1600. unat (green (ps ! (4 * k)))) div 1600))
                      (of_nat ((\<Sum>k < 1600. unat (blue (ps ! (4 * k)))) div 1600)) 255
      in \<exists>ctx'. applyMosaicEffect R ctx 50 30 20 Pixel = Inr ctx' \<and>
            width ctx' = 200 \<and> height ctx' = 100 \<and>
            (\<forall>i j. inCanvas ctx i j \<longrightarrow>
               pixels ctx' i j =
                 (if 0 \<le> i \<and> i < 80 \<and> 0 \<le> j \<and> j < 80 then flat else pixels ctx i j))"
    using d by (simp add: Let_def samplePixels_length cong: if_cong)
qed


theorem mosaic_pixel_mode_witness:
  "(let ps = samplePixels (gradient 200 100) 0 0 80 80;
        flat = RGBA (of_nat ((\<Sum>k < 1600. unat (red (ps ! (4 * k)))) div 1600))
                    (of_nat ((\<Sum>k < 1600. unat (green (ps ! (4 * k)))) div 1600))
                    (of_nat ((\<Sum>k < 1600. unat (blue (ps ! (4 * k)))) div 1600)) 255
    in \<exists>ctx'. applyMosaicEffect plainRaster (gradient 200 100) 50 30 20 Pixel = Inr ctx' \<and>
          width ctx' = 200 \<and> height ctx' = 100 \<and>
          (\<forall>i j. inCanvas (gradient 200 100) i j \<longrightarrow>
             pixels ctx' i j =
               (if 0 \<le> i \<and> i < 80 \<and> 0 \<le> j \<and> j < 80 then flat
                else pixels (gradient 200 100) i j))) \<and>
   (\<exists>ctx'. applyMosaicEffect plainRaster (gradient 8 4) 5 1 1 Pixel = Inr ctx' \<and>
      pixels ctx' 4 0 = RGBA 40 1 7 255 \<and> pixels ctx' 7 3 = RGBA 40 1 7 255 \<and>
      pixels ctx' 3 0 = RGBA 30 0 7 255)"
proof -
  have d: "width (gradient 200 100) = 200 \<and> height (gradient 200 100) = 100"
    by (simp add: gradient_def)
  have h: "(0::real) \<le> 5 \<and> (0::real) \<le> 1 \<and> (0::int) < 1" by simp
  have c: "inCanvas (gradient 8 4) 4 0" "inCanvas (gradient 8 4) 7 3" "inCanvas (gradient 8 4) 3 0"
    by (simp_all add: inCanvas_def gradient_def)
  have f: "\<lfloor>(5::real) / real_of_int (1 * 4)\<rfloor> * (1 * 4) = 4" "\<lfloor>(1::real) / real_of_int (1 * 4)\<rfloor> * (1 * 4) = 0"
    by simp_all
  have e: "(let ps = samplePixels (gradient 8 4) 4 0 4 4; n = (length ps + 3) div 4
            in RGBA (of_nat ((\<Sum>k < n. unat (red (ps ! (4 * k)))) div n))
                    (of_nat ((\<Sum>k < n. unat (green (ps ! (4 * k)))) div n))
                    (of_nat ((\<Sum>k < n. unat (blue (ps ! (4 * k)))) div n)) 255) = RGBA 40 1 7 255"
    by code_simp
  from mosaic_pixel_mode [of 5 1 1 "gradient 8 4" plainRaster] h
  obtain ctx' where r: "applyMosaicEffect plainRaster (gradient 8 4) 5 1 1 Pixel = Inr ctx'"
    and px: "\<forall>i j. inCanvas (gradient 8 4) i j \<longrightarrow>
               pixels ctx' i j = (if 4 \<le> i \<and> i < 8 \<and> 0 \<le> j \<and> j < 4 then RGBA 40 1 7 255
                                  else pixels (gradient 8 4) i j)"
    using e by (auto simp: Let_def f gradient_def cong: if_cong)
  from px c have "pixels ctx' 4 0 = RGBA 40 1 7 255 \<and> pixels ctx' 7 3 = RGBA 40 1 7 255 \<and>
      pixels ctx' 3 0 = RGBA 30 0 7 255"
    by (simp add: gradient_def)
  with r have small: "\<exists>ctx'. applyMosaicEffect plainRaster (gradient 8 4) 5 1 1 Pixel = Inr ctx' \<and>
      pixels ctx' 4 0 = RGBA 40 1 7 255 \<and> pixels ctx' 7 3 = RGBA 40 1 7 255 \<and>
      pixels ctx' 3 0 = RGBA 30 0 7 255" by blast
  show ?thesis
    using mosaic_pixel_mode [of 50 30 20 "gradient 200 100" plainRaster] d small by blast
qed

text \<open>
  Claim C4. In either mode, for a positive brush size, when the clamped sample rectangle
  has a width or a height that is zero or negative, \<^verbatim>\<open>applyMosaicEffect\<close> returns the
  surface as it was and throws nothing. The width is zero or negative exactly when
  \<open>startX\<close> is at or beyond the surface's width, the height when \<open>startY\<close> is at or
  beyond its height.
\<close>

theorem mosaic_empty_sample:
  "0 < sz \<Longrightarrow>
     (let effectSize = real_of_int (sz * 4);
          startX = sampleStart type x effectSize;
          startY = sampleStart type y effectSize;
          sampleW = min effectSize (real (width ctx) - startX);
          sampleH = min effectSize (real (height ctx) - startY)
      in (sampleW \<le> 0 \<or> sampleH \<le> 0 \<longrightarrow> applyMosaicEffect R ctx x y sz type = Inr ctx) \<and>
         (sampleW \<le> 0 \<longleftrightarrow> real (width ctx) \<le> startX) \<and>
         (sampleH \<le> 0 \<longleftrightarrow> real (height ctx) \<le> startY))"
  by (simp add: applyMosaicEffect_def Let_def min_le_iff_disj)

theorem mosaic_empty_sample_witness:
  "min (real_of_int (20 * 4)) (real (width (gradient 200 100)) - sampleStart Pixel 250 (real_of_int (20 * 4)))
      = - 40 \<and>
   applyMosaicEffect plainRaster (gradient 200 100) 250 30 20 Pixel = Inr (gradient 200 100) \<and>
   min (real_of_int (20 * 4)) (real (height (gradient 200 100)) - sampleStart Blur 150 (real_of_int (20 * 4)))
      = - 10 \<and>
   applyMosaicEffect plainRaster (gradient 200 100) 50 150 20 Blur = Inr (gradient 200 100)"
proof -
  have a: "min (real_of_int (20 * 4)) (real (width (gradient 200 100)) - sampleStart Pixel 250 (real_of_int (20 * 4)))
      = - 40"
    by (simp add: sampleStart_def gradient_def Let_def)
  have b: "min (real_of_int (20 * 4)) (real (height (gradient 200 100)) - sampleStart Blur 150 (real_of_int (20 * 4)))
      = - 10"
    by (simp add: sampleStart_def gradient_def Let_def)
  have z: "(0::int) < 20" by simp
  show ?thesis
    using a b mosaic_empty_sample [OF z, of Pixel 250 30 "gradient 200 100" plainRaster]
      mosaic_empty_sample [OF z, of Blur 50 150 "gradient 200 100" plainRaster]
    by (simp add: Let_def)
qed

text \<open>
  Claim C6. Two points in the same cell of the grid of side \<open>effectSize = brushSize \<times> 4\<close>
  (equal \<open>\<lfloor>x / effectSize\<rfloor>\<close> and equal \<open>\<lfloor>y / effectSize\<rfloor>\<close>) with the same brush size
  give the same \<open>startX\<close> and \<open>startY\<close> in pixel mode; the side of the filled square is
  \<open>effectSize\<close> for both, and the two calls on the same surface return the same result.
\<close>

theorem mosaic_same_cell:
  "0 < sz \<Longrightarrow>
   \<lfloor>x1 / real_of_int (sz * 4)\<rfloor> = \<lfloor>x2 / real_of_int (sz * 4)\<rfloor> \<Longrightarrow>
   \<lfloor>y1 / real_of_int (sz * 4)\<rfloor> = \<lfloor>y2 / real_of_int (sz * 4)\<rfloor> \<Longrightarrow>
     sampleStart Pixel x1 (real_of_int (sz * 4)) = sampleStart Pixel x2 (real_of_int (sz * 4)) \<and>
     sampleStart Pixel y1 (real_of_int (sz * 4)) = sampleStart Pixel y2 (real_of_int (sz * 4)) \<and>
     applyMosaicEffect R ctx x1 y1 sz Pixel = applyMosaicEffect R ctx x2 y2 sz Pixel"
proof -
  assume fx: "\<lfloor>x1 / real_of_int (sz * 4)\<rfloor> = \<lfloor>x2 / real_of_int (sz * 4)\<rfloor>"
    and fy: "\<lfloor>y1 / real_of_int (sz * 4)\<rfloor> = \<lfloor>y2 / real_of_int (sz * 4)\<rfloor>"
  have sx: "sampleStart Pixel x1 (real_of_int (sz * 4)) = sampleStart Pixel x2 (real_of_int (sz * 4))"
    by (simp only: sampleStart_def MosaicType.case fx)
  have sy: "sampleStart Pixel y1 (real_of_int (sz * 4)) = sampleStart Pixel y2 (real_of_int (sz * 4))"
    by (simp only: sampleStart_def MosaicType.case fy)
  have "applyMosaicEffect R ctx x1 y1 sz Pixel = applyMosaicEffect R ctx x2 y2 sz Pixel"
    by (simp only: applyMosaicEffect_def Let_def MosaicType.case sx sy)
  with sx sy show ?thesis by (intro conjI)
qed

theorem mosaic_same_cell_witness:
  "\<lfloor>(85::real) / real_of_int (20 * 4)\<rfloor> = 1 \<and> \<lfloor>(319 / 2 :: real) / real_of_int (20 * 4)\<rfloor> = 1 \<and>
   \<lfloor>(30::real) / real_of_int (20 * 4)\<rfloor> = 0 \<and> \<lfloor>(79::real) / real_of_int (20 * 4)\<rfloor> = 0 \<and>
   sampleStart Pixel 85 (real_of_int (20 * 4)) = 80 \<and>
   sampleStart Pixel (319 / 2) (real_of_int (20 * 4)) = 80 \<and>
   sampleStart Pixel 30 (real_of_int (20 * 4)) = 0 \<and>
   sampleStart Pixel 79 (real_of_int (20 * 4)) = 0 \<and>
   applyMosaicEffect plainRaster (gradient 200 100) 85 30 20 Pixel =
     applyMosaicEffect plainRaster (gradient 200 100) (319 / 2) 79 20 Pixel"
proof -
  have f: "\<lfloor>(85::real) / real_of_int (20 * 4)\<rfloor> = 1" "\<lfloor>(319 / 2 :: real) / real_of_int (20 * 4)\<rfloor> = 1"
    "\<lfloor>(30::real) / real_of_int (20 * 4)\<rfloor> = 0" "\<lfloor>(79::real) / real_of_int (20 * 4)\<rfloor> = 0"
    by simp_all
  have z: "(0::int) < 20" by simp
  have s: "sampleStart Pixel 85 (real_of_int (20 * 4)) = 80" "sampleStart Pixel 30 (real_of_int (20 * 4)) = 0"
    by (simp_all add: sampleStart_def Let_def)
  have "\<lfloor>(85::real) / real_of_int (20 * 4)\<rfloor> = \<lfloor>(319 / 2 :: real) / real_of_int (20 * 4)\<rfloor>"
    "\<lfloor>(30::real) / real_of_int (20 * 4)\<rfloor> = \<lfloor>(79::real) / real_of_int (20 * 4)\<rfloor>"
    unfolding f by simp_all
  from mosaic_same_cell [OF z this, of plainRaster "gradient 200 100"] f s
  show ?thesis by simp
qed

text \<open>
  Claim C10 fails on the code. In blur mode the sample rectangle's origin and size are not
  integers; a width (or height) strictly between 0 and 1 passes the guard
  \<^verbatim>\<open>if (sampleW <= 0 || sampleH <= 0) return\<close> and is truncated to zero by
  \<^verbatim>\<open>getImageData\<close>, which throws \<^verbatim>\<open>IndexSizeError\<close>: the loop never runs and no colour
  is built. On a surface of 200 by 100 with brush size 20 this happens at the point
  \<open>(239.5, 50)\<close>, where the sample rectangle is 0.5 wide and 80 high. What the claim says
  does hold whenever \<^verbatim>\<open>getImageData\<close> returns (\<open>mosaic_color_wellformed\<close> above), and so
  for every call in pixel mode.
\<close>

theorem mosaic_blur_fault:
  "min (real_of_int (20 * 4))
       (real (width \<lparr>width = 200, height = 100, pixels = f\<rparr>)
          - sampleStart Blur (479 / 2) (real_of_int (20 * 4))) = 1 / 2 \<and>
   min (real_of_int (20 * 4))
       (real (height \<lparr>width = 200, height = 100, pixels = f\<rparr>)
          - sampleStart Blur 50 (real_of_int (20 * 4))) = 80 \<and>
   applyMosaicEffect R \<lparr>width = 200, height = 100, pixels = f\<rparr> (479 / 2) 50 20 Blur
     = Inl IndexSizeError"
  by (simp add: applyMosaicEffect_def sampleStart_def getImageData_def toLong_def Let_def)

section \<open>Circles and pixels\<close>








section \<open>Properties of the editor\<close>

lemma over_blank: "over R src transparent = src"
  by (simp add: over_def transparent_def)

lemma toLong_of_nat: "toLong (real n) = int n"
  by (simp add: toLong_def)

lemma toUnsignedLong_of_nat: "n < 2 ^ 32 \<Longrightarrow> toUnsignedLong (real n) = n"
proof -
  assume "n < 2 ^ 32"
  then have "int n < 2 ^ 32" by (metis of_nat_less_iff of_nat_numeral of_nat_power)
  then have "int n mod 2 ^ 32 = int n" by simp
  then show ?thesis by (simp add: toUnsignedLong_def toLong_of_nat)
qed

lemma sourceAt_int: "sourceAt R cv (real_of_int i) (real_of_int j) = pixelAt cv i j"
  by (simp add: sourceAt_def)

text \<open>
  Claim C5. With an image loaded (a canvas of positive width and height, each within the
  range of \<^verbatim>\<open>unsigned long\<close>, and an original image), \<^verbatim>\<open>applyCrop\<close> with the crop rectangle
  \<open>{x:0, y:0, w:100, h:100}\<close> gives a canvas, and an original image, of the same width and
  height whose pixels are those of the canvas before.
\<close>

theorem full_frame_crop:
  "canvas st = Some cv \<Longrightarrow> originalImageObj st = Some img \<Longrightarrow>
   0 < width cv \<Longrightarrow> width cv < 2 ^ 32 \<Longrightarrow> 0 < height cv \<Longrightarrow> height cv < 2 ^ 32 \<Longrightarrow>
   cropRect st = fullFrame \<Longrightarrow>
     (\<exists>cv' img'. canvas (applyCrop R st) = Some cv' \<and> originalImageObj (applyCrop R st) = Some img' \<and>
        width cv' = width cv \<and> height cv' = height cv \<and>
        width img' = width cv \<and> height img' = height cv \<and>
        (\<forall>i j. inCanvas cv i j \<longrightarrow> pixels cv' i j = pixels cv i j \<and> pixels img' i j = pixels cv i j))"
proof -
  assume a: "canvas st = Some cv" "originalImageObj st = Some img"
    "0 < width cv" "width cv < 2 ^ 32" "0 < height cv" "height cv < 2 ^ 32" "cropRect st = fullFrame"
  have w: "toUnsignedLong (real (width cv)) = width cv" "toUnsignedLong (real (height cv)) = height cv"
    using a by (simp_all add: toUnsignedLong_of_nat)
  show ?thesis
    using a
    by (auto simp: applyCrop_def fullFrame_def Let_def blank_def w over_blank drawImage_def
        pixelAt_def inCanvas_def sourceAt_def)
qed

theorem full_frame_crop_witness:
  "\<exists>cv' img'. canvas (applyCrop plainRaster (cropping (gradient 200 100))) = Some cv' \<and>
      originalImageObj (applyCrop plainRaster (cropping (gradient 200 100))) = Some img' \<and>
      width cv' = 200 \<and> height cv' = 100 \<and> width img' = 200 \<and> height img' = 100 \<and>
      (\<forall>i j. inCanvas (gradient 200 100) i j \<longrightarrow>
         pixels cv' i j = RGBA (of_int (10 * i)) (of_int j) 7 255 \<and>
         pixels img' i j = RGBA (of_int (10 * i)) (of_int j) 7 255)"
proof -
  have h: "canvas (cropping (gradient 200 100)) = Some (gradient 200 100)"
    "originalImageObj (cropping (gradient 200 100)) = Some (gradient 200 100)"
    "0 < width (gradient 200 100)" "width (gradient 200 100) < 2 ^ 32"
    "0 < height (gradient 200 100)" "height (gradient 200 100) < 2 ^ 32"
    "cropRect (cropping (gradient 200 100)) = fullFrame"
    by (simp_all add: cropping_def gradient_def)
  show ?thesis
    using full_frame_crop [OF h, of plainRaster] by (simp add: gradient_def)
qed







end
